theory Spec2Isabelle
  imports Complex_Main
begin

section \<open>The state of the room styler (src/index.tsx)\<close>

text \<open>
  The module keeps its state in top-level variables; here they are the fields of one
  record that every handler takes and returns. A \<open>string | null\<close> variable is a
  \<open>string option\<close>. The JavaScript numbers that hold the zoom level and the pan offset
  are rationals: every zoom level the handlers can produce is a multiple of 0.25
  between 1 and 3, which a double holds exactly; the pan offset is a difference of mouse
  coordinates, and the theorems below use only that it is 0 after a reset.

  Of the page, the model keeps what a handler writes as \<open>disabled\<close>, \<open>src\<close> or
  \<open>textContent\<close>; CSS classes, inline styles, \<open>innerHTML\<close> and the timers that rotate
  the loading message or hide the toast are left out: no handler reads them back.
\<close>

record HistoryState =
  imageBase64 :: string
  mimeType :: string

datatype button =
    StyleButton | VideoButton | PromptInput
  | UndoButton | RedoButton
  | DownloadButton | ShareButton | CopyButton | EstimateCostButton
  | ToggleComparisonBtn
  | ZoomInButton | ZoomOutButton | ZoomResetButton

datatype image_element = RoomImage | BeforeImage | AfterImage

datatype text_element = ResponseText | ToastMessage | LoadingText

record app_state =
  currentImageBase64 :: "string option"
  currentMimeType :: "string option"
  originalImageBase64 :: "string option"
  originalMimeType :: "string option"
  lastStyledImageBase64 :: "string option"
  lastStyledMimeType :: "string option"
  clickPosition :: "(rat \<times> rat) option"
  history :: "HistoryState list"
  historyIndex :: int
  zoomLevel :: rat
  isDragging :: bool
  dragStartX :: rat
  dragStartY :: rat
  translateX :: rat
  translateY :: rat
  isComparisonMode :: bool
  sliderPosition :: rat
  disabled :: "button \<Rightarrow> bool"
  src :: "image_element \<Rightarrow> string"
  textContent :: "text_element \<Rightarrow> string"

definition MAX_HISTORY :: int where
  "MAX_HISTORY = 20"

text \<open>
  The values the module-level declarations give the variables. What the page's markup
  gives the elements (index.html is not among the sources) is a parameter.
\<close>

definition initial_state ::
  "(button \<Rightarrow> bool) \<Rightarrow> (image_element \<Rightarrow> string) \<Rightarrow> (text_element \<Rightarrow> string) \<Rightarrow> app_state" where
  "initial_state d i t =
     \<lparr> currentImageBase64 = None, currentMimeType = None,
       originalImageBase64 = None, originalMimeType = None,
       lastStyledImageBase64 = None, lastStyledMimeType = None,
       clickPosition = None,
       history = [], historyIndex = - 1,
       zoomLevel = 1, isDragging = False,
       dragStartX = 0, dragStartY = 0, translateX = 0, translateY = 0,
       isComparisonMode = False, sliderPosition = 50,
       disabled = d, src = i, textContent = t \<rparr>"

text \<open>JavaScript truthiness of a \<open>string | null\<close>: null and the empty string are falsy.\<close>

fun truthy :: "string option \<Rightarrow> bool" where
  "truthy None = False"
| "truthy (Some s) = (s \<noteq> [])"

text \<open>The template literal \<open>data:${mimeType};base64,${base64}\<close>.\<close>

definition data_url :: "string \<Rightarrow> string \<Rightarrow> string" where
  "data_url mime base64 = ''data:'' @ mime @ '';base64,'' @ base64"

subsection \<open>Helpers\<close>

definition updateRoomImage :: "string \<Rightarrow> string \<Rightarrow> app_state \<Rightarrow> app_state" where
  "updateRoomImage base64 mime s = s\<lparr>src := (src s)(RoomImage := data_url mime base64)\<rparr>"

definition showToast :: "string \<Rightarrow> app_state \<Rightarrow> app_state" where
  "showToast message s = s\<lparr>textContent := (textContent s)(ToastMessage := message)\<rparr>"

definition updateHistoryButtons :: "app_state \<Rightarrow> app_state" where
  "updateHistoryButtons s =
     s\<lparr>disabled := (disabled s)
          (UndoButton := (historyIndex s \<le> 0),
           RedoButton := (historyIndex s \<ge> int (length (history s)) - 1))\<rparr>"

definition updateActionButtons :: "app_state \<Rightarrow> app_state" where
  "updateActionButtons s =
     (let hasImage = truthy (lastStyledImageBase64 s);
          hasCurrentImage = truthy (currentImageBase64 s)
      in s\<lparr>disabled := (disabled s)
            (DownloadButton := \<not> hasImage,
             ShareButton := \<not> hasImage,
             CopyButton := \<not> hasImage,
             EstimateCostButton := \<not> hasImage,
             ToggleComparisonBtn := \<not> hasImage,
             ZoomInButton := \<not> hasCurrentImage,
             ZoomOutButton := \<not> hasCurrentImage,
             ZoomResetButton := \<not> hasCurrentImage)\<rparr>)"

definition setLoading :: "bool \<Rightarrow> string \<Rightarrow> app_state \<Rightarrow> app_state" where
  "setLoading isLoading message s =
     s\<lparr>disabled := (disabled s)
          (StyleButton := isLoading,
           VideoButton := (isLoading \<or> \<not> truthy (lastStyledImageBase64 s)),
           PromptInput := isLoading),
       textContent := (textContent s)(LoadingText := message)\<rparr>"

definition resetPlacementMarker :: "app_state \<Rightarrow> app_state" where
  "resetPlacementMarker s = s\<lparr>clickPosition := None\<rparr>"

subsection \<open>The undo/redo history\<close>

text \<open>
  \<open>history.splice(start)\<close> removes everything from index \<open>start\<close> on; a negative
  \<open>start\<close> counts from the end, and both are clamped to the array.
\<close>

definition js_splice_from :: "'a list \<Rightarrow> int \<Rightarrow> 'a list" where
  "js_splice_from xs start =
     (let n = int (length xs);
          k = (if start < 0 then max (n + start) 0 else min start n)
      in take (nat k) xs)"

text \<open>\<open>xs[i]\<close>: \<open>undefined\<close> (here None) outside the array.\<close>

definition js_index :: "'a list \<Rightarrow> int \<Rightarrow> 'a option" where
  "js_index xs i = (if 0 \<le> i \<and> i < int (length xs) then Some (xs ! nat i) else None)"

definition addToHistory :: "string \<Rightarrow> string \<Rightarrow> app_state \<Rightarrow> app_state" where
  "addToHistory data mime s =
     (let h1 = (if historyIndex s < int (length (history s)) - 1
                then js_splice_from (history s) (historyIndex s + 1)
                else history s);
          h2 = h1 @ [\<lparr>imageBase64 = data, mimeType = mime\<rparr>];
          s1 = (if int (length h2) > MAX_HISTORY
                then s\<lparr>history := tl h2\<rparr>
                else s\<lparr>history := h2, historyIndex := historyIndex s + 1\<rparr>)
      in updateHistoryButtons s1)"

text \<open>
  Both handlers read \<open>history[historyIndex]\<close> after moving the index. Were the entry
  missing, \<open>state.imageBase64\<close> would raise a TypeError that nothing catches: the
  handler stops there, with only the index moved.
\<close>

definition handleUndo :: "app_state \<Rightarrow> app_state" where
  "handleUndo s =
     (if historyIndex s > 0 then
        (let s1 = s\<lparr>historyIndex := historyIndex s - 1\<rparr>
         in case js_index (history s1) (historyIndex s1) of
              None \<Rightarrow> s1
            | Some st \<Rightarrow>
                showToast ''Undone''
                  (updateActionButtons
                    (updateHistoryButtons
                      (updateRoomImage (imageBase64 st) (mimeType st)
                        (s1\<lparr>currentImageBase64 := Some (imageBase64 st),
                            currentMimeType := Some (mimeType st),
                            lastStyledImageBase64 := Some (imageBase64 st),
                            lastStyledMimeType := Some (mimeType st)\<rparr>)))))
      else s)"

definition handleRedo :: "app_state \<Rightarrow> app_state" where
  "handleRedo s =
     (if historyIndex s < int (length (history s)) - 1 then
        (let s1 = s\<lparr>historyIndex := historyIndex s + 1\<rparr>
         in case js_index (history s1) (historyIndex s1) of
              None \<Rightarrow> s1
            | Some st \<Rightarrow>
                showToast ''Redone''
                  (updateActionButtons
                    (updateHistoryButtons
                      (updateRoomImage (imageBase64 st) (mimeType st)
                        (s1\<lparr>currentImageBase64 := Some (imageBase64 st),
                            currentMimeType := Some (mimeType st),
                            lastStyledImageBase64 := Some (imageBase64 st),
                            lastStyledMimeType := Some (mimeType st)\<rparr>)))))
      else s)"

subsection \<open>A new base image\<close>

definition setNewBaseImage :: "string \<Rightarrow> string \<Rightarrow> app_state \<Rightarrow> app_state" where
  "setNewBaseImage base64 mime s =
     (let s1 = s\<lparr>currentImageBase64 := Some base64, currentMimeType := Some mime,
                 originalImageBase64 := Some base64, originalMimeType := Some mime\<rparr>;
          s2 = resetPlacementMarker (updateRoomImage base64 mime s1);
          s3 = s2\<lparr>lastStyledImageBase64 := None, lastStyledMimeType := None,
                  disabled := (disabled s2)(VideoButton := True)\<rparr>;
          s4 = (if isComparisonMode s3 then s3\<lparr>isComparisonMode := False\<rparr> else s3)
      in updateActionButtons s4)"

subsection \<open>Zoom and pan\<close>

definition handleZoomIn :: "app_state \<Rightarrow> app_state" where
  "handleZoomIn s = (if zoomLevel s < 3 then s\<lparr>zoomLevel := zoomLevel s + 1 / 4\<rparr> else s)"

definition handleZoomOut :: "app_state \<Rightarrow> app_state" where
  "handleZoomOut s =
     (if zoomLevel s > 1 then
        (let s1 = s\<lparr>zoomLevel := zoomLevel s - 1 / 4\<rparr>
         in if zoomLevel s1 = 1 then s1\<lparr>translateX := 0, translateY := 0\<rparr> else s1)
      else s)"

definition handleZoomReset :: "app_state \<Rightarrow> app_state" where
  "handleZoomReset s = s\<lparr>zoomLevel := 1, translateX := 0, translateY := 0\<rparr>"

text \<open>The mouse handlers take the event's \<open>clientX\<close> and \<open>clientY\<close>.\<close>

definition handleDragStart :: "rat \<Rightarrow> rat \<Rightarrow> app_state \<Rightarrow> app_state" where
  "handleDragStart clientX clientY s =
     (if zoomLevel s > 1
      then s\<lparr>isDragging := True,
             dragStartX := clientX - translateX s,
             dragStartY := clientY - translateY s\<rparr>
      else s)"

definition handleDragMove :: "rat \<Rightarrow> rat \<Rightarrow> app_state \<Rightarrow> app_state" where
  "handleDragMove clientX clientY s =
     (if isDragging s \<and> zoomLevel s > 1
      then s\<lparr>translateX := clientX - dragStartX s,
             translateY := clientY - dragStartY s\<rparr>
      else s)"

definition handleDragEnd :: "app_state \<Rightarrow> app_state" where
  "handleDragEnd s = (if isDragging s then s\<lparr>isDragging := False\<rparr> else s)"

subsection \<open>Before/after comparison\<close>

definition toggleComparison :: "app_state \<Rightarrow> app_state" where
  "toggleComparison s =
     (let s1 = s\<lparr>isComparisonMode := \<not> isComparisonMode s\<rparr>
      in if isComparisonMode s1 then
           (let s2 = (case (originalImageBase64 s1, originalMimeType s1) of
                        (Some b, Some m) \<Rightarrow>
                          if b \<noteq> [] \<and> m \<noteq> []
                          then s1\<lparr>src := (src s1)(BeforeImage := data_url m b)\<rparr> else s1
                      | _ \<Rightarrow> s1)
            in case (lastStyledImageBase64 s2, lastStyledMimeType s2) of
                 (Some b, Some m) \<Rightarrow>
                   if b \<noteq> [] \<and> m \<noteq> []
                   then s2\<lparr>src := (src s2)(AfterImage := data_url m b)\<rparr> else s2
               | _ \<Rightarrow> s2)
         else s1)"

text \<open>
  \<open>toggleComparison\<close> runs only as the click listener of the toggle button, and a
  disabled button dispatches no click.
\<close>

definition click_toggleComparison :: "app_state \<Rightarrow> app_state" where
  "click_toggleComparison s =
     (if disabled s ToggleComparisonBtn then s else toggleComparison s)"

subsection \<open>Styling\<close>

text \<open>
  A part of the service's answer: a text, an inline image (data and MIME type), both or
  neither. The answer itself is a parameter: either the list
  \<open>response.candidates[0].content.parts\<close>, or the message of whatever the call, or
  reading that list, threw.
\<close>

record part =
  part_text :: "string option"
  part_inlineData :: "(string \<times> string) option"

datatype api_outcome = Threw string | Parts "part list"

text \<open>
  The prompt is the one string whose characters the code looks at, so it is what a
  JavaScript string is: a list of UTF-16 code units. \<open>trim\<close> strips the WhiteSpace and
  LineTerminator code points of ECMAScript from both ends: tab, line feed, vertical tab,
  form feed, carriage return, space, no-break space, U+1680, U+2000 to U+200A, the line
  and paragraph separators, U+202F, U+205F, U+3000 and U+FEFF. All lie in the basic
  plane, so each is one code unit.
\<close>

type_synonym js_string = "nat list"

definition is_js_whitespace :: "nat \<Rightarrow> bool" where
  "is_js_whitespace c =
     (c \<in> {0x0009, 0x000A, 0x000B, 0x000C, 0x000D, 0x0020, 0x00A0, 0x1680,
            0x2028, 0x2029, 0x202F, 0x205F, 0x3000, 0xFEFF}
      \<or> (0x2000 \<le> c \<and> c \<le> 0x200A))"

definition js_trim :: "js_string \<Rightarrow> js_string" where
  "js_trim s = rev (dropWhile is_js_whitespace (rev (dropWhile is_js_whitespace s)))"

text \<open>The code units of an ASCII text, for writing prompts down.\<close>

definition code_units :: "string \<Rightarrow> js_string" where
  "code_units s = map of_char s"

definition STYLING_MESSAGES :: "string list" where
  "STYLING_MESSAGES =
     [''Consulting our AI interior designer...'',
      ''Sketching your new room design...'',
      ''Adding the perfect finishing touches...'',
      ''Unleashing digital creativity...'',
      ''Bringing your vision to life...'']"

text \<open>
  \<open>handleStyleRoom\<close> up to its \<open>await\<close>, given the value of the prompt box. The
  Boolean says whether the request was sent; the instruction sent with it is not
  modelled, the answer being a parameter of the second half.
\<close>

definition handleStyleRoom_begin :: "js_string \<Rightarrow> app_state \<Rightarrow> app_state \<times> bool" where
  "handleStyleRoom_begin promptValue s =
     (if \<not> truthy (currentImageBase64 s) \<or> \<not> truthy (currentMimeType s) then
        (s\<lparr>textContent := (textContent s)
              (ResponseText := ''Please choose or upload a room image first.'')\<rparr>, False)
      else if js_trim promptValue = [] then
        (s\<lparr>textContent := (textContent s)
              (ResponseText := ''Please describe what you want to add to the room.'')\<rparr>, False)
      else
        (let s1 = setLoading True (STYLING_MESSAGES ! 0) s;
             s2 = s1\<lparr>textContent := (textContent s1)(ResponseText := [])\<rparr>
         in (resetPlacementMarker s2, True)))"

text \<open>One round of the loop over the parts; the Boolean is \<open>foundImage\<close>.\<close>

definition style_part :: "part \<Rightarrow> bool \<times> app_state \<Rightarrow> bool \<times> app_state" where
  "style_part p fs =
     (let foundImage = fst fs; s = snd fs in
      if truthy (part_text p) then
        (foundImage, s\<lparr>textContent := (textContent s)(ResponseText := the (part_text p))\<rparr>)
      else
        (case part_inlineData p of
           None \<Rightarrow> (foundImage, s)
         | Some (data, mime) \<Rightarrow>
             (let s1 = s\<lparr>currentImageBase64 := Some data, currentMimeType := Some mime\<rparr>;
                  s2 = updateRoomImage data mime s1;
                  s3 = s2\<lparr>lastStyledImageBase64 := Some data, lastStyledMimeType := Some mime\<rparr>;
                  s4 = updateActionButtons (addToHistory data mime s3);
                  s5 = s4\<lparr>disabled := (disabled s4)(VideoButton := False)\<rparr>
              in (True, showToast ''Room styled successfully!'' s5))))"

text \<open>\<open>handleStyleRoom\<close> from the answer on: the loop, the catch and the finally.\<close>

definition handleStyleRoom_resume :: "api_outcome \<Rightarrow> app_state \<Rightarrow> app_state" where
  "handleStyleRoom_resume outcome s =
     setLoading False ''Processing...''
       (case outcome of
          Threw msg \<Rightarrow>
            s\<lparr>textContent := (textContent s)(ResponseText := ''An error occurred: '' @ msg)\<rparr>
        | Parts ps \<Rightarrow>
            (let r = fold style_part ps (False, s) in
             if \<not> fst r then
               (snd r)\<lparr>textContent := (textContent (snd r))
                 (ResponseText :=
                    ''The model did not return an image. Please try a different prompt.'')\<rparr>
             else snd r))"

text \<open>The whole handler when nothing else runs while the request is in flight.\<close>

definition handleStyleRoom :: "js_string \<Rightarrow> api_outcome \<Rightarrow> app_state \<Rightarrow> app_state" where
  "handleStyleRoom promptValue outcome s =
     (let b = handleStyleRoom_begin promptValue s in
      if snd b then handleStyleRoom_resume outcome (fst b) else fst b)"

subsection \<open>Events\<close>

text \<open>
  What can happen to the state, one handler invocation at a time. The two halves of
  \<open>handleStyleRoom\<close> are separate events, since other handlers run between them; a
  new base image comes from an upload or a sample; \<open>Loading\<close> is the \<open>setLoading\<close>
  call of the handlers around it.
\<close>

datatype event =
    NewBaseImage string string
  | Loading bool string
  | ClickImage rat rat
  | ClickStyle js_string
  | StyleAnswer api_outcome
  | Undo
  | Redo
  | ZoomIn
  | ZoomOut
  | ZoomReset
  | DragStart rat rat
  | DragMove rat rat
  | DragEnd
  | ClickToggleComparison

fun step :: "event \<Rightarrow> app_state \<Rightarrow> app_state" where
  "step (NewBaseImage base64 mime) s = setNewBaseImage base64 mime s"
| "step (Loading b msg) s = setLoading b msg s"
| "step (ClickImage x y) s = s\<lparr>clickPosition := Some (x, y)\<rparr>"
| "step (ClickStyle promptValue) s = fst (handleStyleRoom_begin promptValue s)"
| "step (StyleAnswer outcome) s = handleStyleRoom_resume outcome s"
| "step Undo s = handleUndo s"
| "step Redo s = handleRedo s"
| "step ZoomIn s = handleZoomIn s"
| "step ZoomOut s = handleZoomOut s"
| "step ZoomReset s = handleZoomReset s"
| "step (DragStart x y) s = handleDragStart x y s"
| "step (DragMove x y) s = handleDragMove x y s"
| "step DragEnd s = handleDragEnd s"
| "step ClickToggleComparison s = click_toggleComparison s"

definition run :: "event list \<Rightarrow> app_state \<Rightarrow> app_state" where
  "run evs s = fold step evs s"

text \<open>The history as the spec describes it: the cursor is \<open>-1\<close> or a valid index, at most 20 entries.\<close>

definition ledger_inv :: "app_state \<Rightarrow> bool" where
  "ledger_inv s =
     (- 1 \<le> historyIndex s \<and> historyIndex s < int (length (history s))
      \<and> int (length (history s)) \<le> MAX_HISTORY)"

text \<open>
  The zoom levels the handlers can reach, with the pan offset at rest when the level is 1.
\<close>

definition zoom_inv :: "app_state \<Rightarrow> bool" where
  "zoom_inv s =
     (zoomLevel s \<in> {1, 5 / 4, 3 / 2, 7 / 4, 2, 9 / 4, 5 / 2, 11 / 4, 3}
      \<and> (zoomLevel s = 1 \<longrightarrow> translateX s = 0 \<and> translateY s = 0))"

text \<open>
  What \<open>updateActionButtons\<close> keeps true of the toggle button, and that no styled image
  means no comparison view.
\<close>

definition toggle_inv :: "app_state \<Rightarrow> bool" where
  "toggle_inv s =
     (disabled s ToggleComparisonBtn = (\<not> truthy (lastStyledImageBase64 s))
      \<and> (lastStyledImageBase64 s = None \<longrightarrow> \<not> isComparisonMode s))"



subsection \<open>Example states\<close>

definition image_part :: "string \<Rightarrow> string \<Rightarrow> part" where
  "image_part data mime = \<lparr>part_text = None, part_inlineData = Some (data, mime)\<rparr>"

definition text_part :: "string \<Rightarrow> part" where
  "text_part t = \<lparr>part_text = Some t, part_inlineData = None\<rparr>"

definition example_base :: app_state where
  "example_base =
     setNewBaseImage ''AAAA'' ''image/png'' (initial_state (\<lambda>_. True) (\<lambda>_. []) (\<lambda>_. []))"

definition example_styled_once :: app_state where
  "example_styled_once =
     handleStyleRoom (code_units ''add a lamp'') (Parts [image_part ''BBBB'' ''image/png'']) example_base"

definition example_styled_twice :: app_state where
  "example_styled_twice =
     handleStyleRoom (code_units ''add a plant'')
       (Parts [text_part ''Here is your room.'', image_part ''CCCC'' ''image/png''])
       example_styled_once"

definition example_full :: app_state where
  "example_full =
     (initial_state (\<lambda>_. True) (\<lambda>_. []) (\<lambda>_. []))
       \<lparr>history := map (\<lambda>n. \<lparr>imageBase64 = replicate n (CHR ''B''), mimeType = ''image/png''\<rparr>) [1..<21],
        historyIndex := 19\<rparr>"

definition example_zoomed :: app_state where
  "example_zoomed =
     run [NewBaseImage ''AAAA'' ''image/png'', ZoomIn, ZoomIn, DragStart 100 100, DragMove 130 90]
       (initial_state (\<lambda>_. True) (\<lambda>_. []) (\<lambda>_. []))"

definition example_zoom_max :: app_state where
  "example_zoom_max =
     run [NewBaseImage ''AAAA'' ''image/png'',
          ZoomIn, ZoomIn, ZoomIn, ZoomIn, ZoomIn, ZoomIn, ZoomIn, ZoomIn]
       (initial_state (\<lambda>_. True) (\<lambda>_. []) (\<lambda>_. []))"

definition example_failed :: app_state where
  "example_failed =
     run [ClickStyle (code_units ''add a lamp''), StyleAnswer (Threw ''Failed to fetch'')]
       (setNewBaseImage ''AAAA'' ''image/png'' (initial_state (\<lambda>_. False) (\<lambda>_. []) (\<lambda>_. [])))"

definition example_in_flight :: app_state where
  "example_in_flight = fst (handleStyleRoom_begin (code_units ''add a lamp'') example_base)"

definition example_rebased :: app_state where
  "example_rebased = setNewBaseImage ''DDDD'' ''image/jpeg'' example_in_flight"

definition example_undone :: app_state where
  "example_undone = handleUndo example_styled_twice"



section \<open>Auxiliary facts\<close>

lemmas helper_defs =
  updateRoomImage_def showToast_def updateHistoryButtons_def updateActionButtons_def
  setLoading_def resetPlacementMarker_def

lemma js_splice_from_take:
  "0 \<le> k \<Longrightarrow> js_splice_from xs k = take (nat k) xs"
  by (simp add: js_splice_from_def Let_def min_def)

lemma addToHistory_history:
  assumes "ledger_inv s"
  shows "history (addToHistory data mime s) =
     (let kept = take (nat (historyIndex s + 1)) (history s) @ [\<lparr>imageBase64 = data, mimeType = mime\<rparr>]
      in if length kept > 20 then tl kept else kept)"
  using assms
  by (auto simp: addToHistory_def ledger_inv_def MAX_HISTORY_def Let_def js_splice_from_take updateHistoryButtons_def)

lemma addToHistory_index:
  assumes "ledger_inv s"
  shows "historyIndex (addToHistory data mime s) = int (length (history (addToHistory data mime s))) - 1"
  using assms
  by (auto simp: addToHistory_def ledger_inv_def MAX_HISTORY_def Let_def js_splice_from_take updateHistoryButtons_def)

lemma addToHistory_inv:
  assumes "ledger_inv s"
  shows "ledger_inv (addToHistory data mime s)"
  using assms
  by (auto simp: addToHistory_def ledger_inv_def MAX_HISTORY_def Let_def js_splice_from_take updateHistoryButtons_def)

lemma addToHistory_last:
  assumes "ledger_inv s"
  shows "js_index (history (addToHistory data mime s)) (historyIndex (addToHistory data mime s)) = Some \<lparr>imageBase64 = data, mimeType = mime\<rparr>"
  using assms
  by (auto simp: addToHistory_def ledger_inv_def MAX_HISTORY_def Let_def js_splice_from_take updateHistoryButtons_def js_index_def nth_append nth_tl)

text \<open>What undo and redo leave alone.\<close>

lemma handleUndo_frame:
  "handleUndo s =
     s\<lparr>currentImageBase64 := currentImageBase64 (handleUndo s),
       currentMimeType := currentMimeType (handleUndo s),
       lastStyledImageBase64 := lastStyledImageBase64 (handleUndo s),
       lastStyledMimeType := lastStyledMimeType (handleUndo s),
       historyIndex := historyIndex (handleUndo s),
       disabled := disabled (handleUndo s),
       src := src (handleUndo s),
       textContent := textContent (handleUndo s)\<rparr>"
  by (simp add: handleUndo_def Let_def helper_defs split: option.split)

lemma handleRedo_frame:
  "handleRedo s =
     s\<lparr>currentImageBase64 := currentImageBase64 (handleRedo s),
       currentMimeType := currentMimeType (handleRedo s),
       lastStyledImageBase64 := lastStyledImageBase64 (handleRedo s),
       lastStyledMimeType := lastStyledMimeType (handleRedo s),
       historyIndex := historyIndex (handleRedo s),
       disabled := disabled (handleRedo s),
       src := src (handleRedo s),
       textContent := textContent (handleRedo s)\<rparr>"
  by (simp add: handleRedo_def Let_def helper_defs split: option.split)

lemma handleUndo_inv: "ledger_inv s \<Longrightarrow> ledger_inv (handleUndo s)"
  by (auto simp: handleUndo_def Let_def helper_defs ledger_inv_def split: option.split)

lemma handleRedo_inv: "ledger_inv s \<Longrightarrow> ledger_inv (handleRedo s)"
  by (auto simp: handleRedo_def Let_def helper_defs ledger_inv_def split: option.split)

text \<open>Parts without an image only write the response text.\<close>

lemma style_part_text_only:
  "part_inlineData p = None \<Longrightarrow>
   \<exists>t. style_part p (f, s) = (f, s\<lparr>textContent := (textContent s)(ResponseText := t)\<rparr>)"
proof (cases "truthy (part_text p)")
  case True
  then show ?thesis by (auto simp: style_part_def Let_def)
next
  case False
  assume "part_inlineData p = None"
  with False have "style_part p (f, s) = (f, s\<lparr>textContent := (textContent s)(ResponseText := textContent s ResponseText)\<rparr>)"
    by (simp add: style_part_def Let_def)
  then show ?thesis by blast
qed

lemma fold_style_part_text_only:
  "\<forall>p\<in>set ps. part_inlineData p = None \<Longrightarrow>
   \<exists>t. fold style_part ps (f, s) = (f, s\<lparr>textContent := (textContent s)(ResponseText := t)\<rparr>)"
proof (induction ps arbitrary: s)
  case Nil
  have "(f, s) = (f, s\<lparr>textContent := (textContent s)(ResponseText := textContent s ResponseText)\<rparr>)"
    by simp
  then show ?case by (metis fold_simps(1))
next
  case (Cons p ps)
  then obtain t where t: "style_part p (f, s) = (f, s\<lparr>textContent := (textContent s)(ResponseText := t)\<rparr>)"
    using style_part_text_only[of p f s] by auto
  from Cons obtain t' where
    "fold style_part ps (f, s\<lparr>textContent := (textContent s)(ResponseText := t)\<rparr>)
       = (f, (s\<lparr>textContent := (textContent s)(ResponseText := t)\<rparr>)
            \<lparr>textContent := (textContent (s\<lparr>textContent := (textContent s)(ResponseText := t)\<rparr>))(ResponseText := t')\<rparr>)"
    by (metis list.set_intros(2))
  then have "fold style_part (p # ps) (f, s) = (f, s\<lparr>textContent := (textContent s)(ResponseText := t')\<rparr>)"
    using t by simp
  then show ?case by blast
qed

lemma style_part_image:
  "\<not> truthy (part_text p) \<Longrightarrow> part_inlineData p = Some (data, mime) \<Longrightarrow>
   style_part p (f, s) =
     (True, showToast ''Room styled successfully!''
        ((updateActionButtons (addToHistory data mime
            (updateRoomImage data mime
               (s\<lparr>currentImageBase64 := Some data, currentMimeType := Some mime\<rparr>)
               \<lparr>lastStyledImageBase64 := Some data, lastStyledMimeType := Some mime\<rparr>)))
         \<lparr>disabled := (disabled (updateActionButtons (addToHistory data mime
            (updateRoomImage data mime
               (s\<lparr>currentImageBase64 := Some data, currentMimeType := Some mime\<rparr>)
               \<lparr>lastStyledImageBase64 := Some data, lastStyledMimeType := Some mime\<rparr>))))
             (VideoButton := False)\<rparr>))"
  by (simp add: style_part_def Let_def)

text \<open>The invariants through one round of the loop, then through all of them.\<close>

lemma style_part_ledger_inv:
  "ledger_inv (snd fs) \<Longrightarrow> ledger_inv (snd (style_part p fs))"
proof -
  assume inv: "ledger_inv (snd fs)"
  have a: "\<And>d m s. ledger_inv s \<Longrightarrow> ledger_inv (addToHistory d m s)" by (rule addToHistory_inv)
  have b: "\<And>s f. history (f s) = history s \<Longrightarrow> historyIndex (f s) = historyIndex s \<Longrightarrow> ledger_inv s \<Longrightarrow> ledger_inv (f s)"
    by (simp add: ledger_inv_def)
  show ?thesis
  proof (cases "truthy (part_text p)")
    case True
    then show ?thesis using inv by (simp add: style_part_def Let_def ledger_inv_def)
  next
    case False
    show ?thesis
    proof (cases "part_inlineData p")
      case None
      then show ?thesis using False inv by (simp add: style_part_def Let_def)
    next
      case (Some dm)
      obtain d m where dm: "dm = (d, m)" by (cases dm)
      let ?s3 = "updateRoomImage d m
               ((snd fs)\<lparr>currentImageBase64 := Some d, currentMimeType := Some m\<rparr>)
               \<lparr>lastStyledImageBase64 := Some d, lastStyledMimeType := Some m\<rparr>"
      have "ledger_inv ?s3" using inv by (simp add: ledger_inv_def updateRoomImage_def)
      then have "ledger_inv (addToHistory d m ?s3)" by (rule a)
      then have "ledger_inv (snd (style_part p (fst fs, snd fs)))"
        unfolding style_part_image[OF False Some[unfolded dm]]
        by (simp add: ledger_inv_def helper_defs Let_def)
      then show ?thesis by simp
    qed
  qed
qed

lemma style_part_zoom:
  "zoomLevel (snd (style_part p fs)) = zoomLevel (snd fs)
   \<and> translateX (snd (style_part p fs)) = translateX (snd fs)
   \<and> translateY (snd (style_part p fs)) = translateY (snd fs)
   \<and> isComparisonMode (snd (style_part p fs)) = isComparisonMode (snd fs)
   \<and> originalImageBase64 (snd (style_part p fs)) = originalImageBase64 (snd fs)
   \<and> originalMimeType (snd (style_part p fs)) = originalMimeType (snd fs)"
  by (simp add: style_part_def Let_def helper_defs addToHistory_def split: option.split prod.split)

lemma style_part_toggle_inv:
  "toggle_inv (snd fs) \<Longrightarrow> toggle_inv (snd (style_part p fs))"
  by (simp add: style_part_def Let_def helper_defs addToHistory_def toggle_inv_def split: option.split prod.split)

lemma fold_style_part_ledger_inv:
  "ledger_inv (snd fs) \<Longrightarrow> ledger_inv (snd (fold style_part ps fs))"
  by (induction ps arbitrary: fs) (simp_all add: style_part_ledger_inv)

lemma fold_style_part_toggle_inv:
  "toggle_inv (snd fs) \<Longrightarrow> toggle_inv (snd (fold style_part ps fs))"
  by (induction ps arbitrary: fs) (simp_all add: style_part_toggle_inv)

lemma fold_style_part_zoom:
  "zoomLevel (snd (fold style_part ps fs)) = zoomLevel (snd fs)
   \<and> translateX (snd (fold style_part ps fs)) = translateX (snd fs)
   \<and> translateY (snd (fold style_part ps fs)) = translateY (snd fs)
   \<and> isComparisonMode (snd (fold style_part ps fs)) = isComparisonMode (snd fs)
   \<and> originalImageBase64 (snd (fold style_part ps fs)) = originalImageBase64 (snd fs)
   \<and> originalMimeType (snd (fold style_part ps fs)) = originalMimeType (snd fs)"
  by (induction ps arbitrary: fs) (simp_all add: style_part_zoom)

lemma setNewBaseImage_frame:
  "history (setNewBaseImage b m s) = history s
   \<and> historyIndex (setNewBaseImage b m s) = historyIndex s
   \<and> disabled (setNewBaseImage b m s) UndoButton = disabled s UndoButton
   \<and> disabled (setNewBaseImage b m s) RedoButton = disabled s RedoButton
   \<and> zoomLevel (setNewBaseImage b m s) = zoomLevel s
   \<and> translateX (setNewBaseImage b m s) = translateX s
   \<and> translateY (setNewBaseImage b m s) = translateY s
   \<and> sliderPosition (setNewBaseImage b m s) = sliderPosition s"
  by (simp add: setNewBaseImage_def Let_def helper_defs)

lemma setNewBaseImage_slots:
  "currentImageBase64 (setNewBaseImage b m s) = Some b
   \<and> currentMimeType (setNewBaseImage b m s) = Some m
   \<and> originalImageBase64 (setNewBaseImage b m s) = Some b
   \<and> originalMimeType (setNewBaseImage b m s) = Some m
   \<and> lastStyledImageBase64 (setNewBaseImage b m s) = None
   \<and> lastStyledMimeType (setNewBaseImage b m s) = None
   \<and> isComparisonMode (setNewBaseImage b m s) = False"
  by (simp add: setNewBaseImage_def Let_def helper_defs)

lemma setNewBaseImage_toggle_inv: "toggle_inv (setNewBaseImage b m s)"
  by (simp add: setNewBaseImage_def Let_def helper_defs toggle_inv_def)

lemma resume_ledger_inv:
  "ledger_inv s \<Longrightarrow> ledger_inv (handleStyleRoom_resume outcome s)"
proof (cases outcome)
  case (Threw msg)
  assume "ledger_inv s"
  then show ?thesis using Threw
    by (simp add: handleStyleRoom_resume_def setLoading_def ledger_inv_def)
next
  case (Parts ps)
  assume "ledger_inv s"
  then have "ledger_inv (snd (fold style_part ps (False, s)))"
    by (simp add: fold_style_part_ledger_inv)
  then show ?thesis using Parts
    by (simp add: handleStyleRoom_resume_def setLoading_def ledger_inv_def Let_def)
qed

lemma resume_toggle_inv:
  "toggle_inv s \<Longrightarrow> toggle_inv (handleStyleRoom_resume outcome s)"
proof (cases outcome)
  case (Threw msg)
  assume "toggle_inv s"
  then show ?thesis using Threw
    by (simp add: handleStyleRoom_resume_def setLoading_def toggle_inv_def)
next
  case (Parts ps)
  assume "toggle_inv s"
  then have "toggle_inv (snd (fold style_part ps (False, s)))"
    by (simp add: fold_style_part_toggle_inv)
  then show ?thesis using Parts
    by (simp add: handleStyleRoom_resume_def setLoading_def toggle_inv_def Let_def)
qed

lemma resume_zoom:
  "zoomLevel (handleStyleRoom_resume outcome s) = zoomLevel s
   \<and> translateX (handleStyleRoom_resume outcome s) = translateX s
   \<and> translateY (handleStyleRoom_resume outcome s) = translateY s"
proof (cases outcome)
  case (Threw msg)
  then show ?thesis by (simp add: handleStyleRoom_resume_def setLoading_def)
next
  case (Parts ps)
  then show ?thesis using fold_style_part_zoom[of ps "(False, s)"]
    by (simp add: handleStyleRoom_resume_def setLoading_def Let_def)
qed

lemma begin_fields:
  "history (fst (handleStyleRoom_begin p s)) = history s
   \<and> historyIndex (fst (handleStyleRoom_begin p s)) = historyIndex s
   \<and> zoomLevel (fst (handleStyleRoom_begin p s)) = zoomLevel s
   \<and> translateX (fst (handleStyleRoom_begin p s)) = translateX s
   \<and> translateY (fst (handleStyleRoom_begin p s)) = translateY s
   \<and> isComparisonMode (fst (handleStyleRoom_begin p s)) = isComparisonMode s
   \<and> currentImageBase64 (fst (handleStyleRoom_begin p s)) = currentImageBase64 s
   \<and> currentMimeType (fst (handleStyleRoom_begin p s)) = currentMimeType s
   \<and> originalImageBase64 (fst (handleStyleRoom_begin p s)) = originalImageBase64 s
   \<and> originalMimeType (fst (handleStyleRoom_begin p s)) = originalMimeType s
   \<and> lastStyledImageBase64 (fst (handleStyleRoom_begin p s)) = lastStyledImageBase64 s
   \<and> lastStyledMimeType (fst (handleStyleRoom_begin p s)) = lastStyledMimeType s
   \<and> disabled (fst (handleStyleRoom_begin p s)) ToggleComparisonBtn = disabled s ToggleComparisonBtn"
  by (simp add: handleStyleRoom_begin_def Let_def helper_defs)

lemma toggleComparison_fields:
  "history (toggleComparison s) = history s
   \<and> historyIndex (toggleComparison s) = historyIndex s
   \<and> zoomLevel (toggleComparison s) = zoomLevel s
   \<and> translateX (toggleComparison s) = translateX s
   \<and> translateY (toggleComparison s) = translateY s
   \<and> isComparisonMode (toggleComparison s) = (\<not> isComparisonMode s)
   \<and> lastStyledImageBase64 (toggleComparison s) = lastStyledImageBase64 s
   \<and> disabled (toggleComparison s) = disabled s
   \<and> textContent (toggleComparison s) = textContent s"
  by (simp add: toggleComparison_def Let_def split: option.split)

lemma handleUndo_fields:
  "history (handleUndo s) = history s
   \<and> originalImageBase64 (handleUndo s) = originalImageBase64 s
   \<and> originalMimeType (handleUndo s) = originalMimeType s
   \<and> zoomLevel (handleUndo s) = zoomLevel s
   \<and> translateX (handleUndo s) = translateX s
   \<and> translateY (handleUndo s) = translateY s
   \<and> isComparisonMode (handleUndo s) = isComparisonMode s"
  by (simp add: handleUndo_def Let_def helper_defs split: option.split)

lemma handleRedo_fields:
  "history (handleRedo s) = history s
   \<and> originalImageBase64 (handleRedo s) = originalImageBase64 s
   \<and> originalMimeType (handleRedo s) = originalMimeType s
   \<and> zoomLevel (handleRedo s) = zoomLevel s
   \<and> translateX (handleRedo s) = translateX s
   \<and> translateY (handleRedo s) = translateY s
   \<and> isComparisonMode (handleRedo s) = isComparisonMode s"
  by (simp add: handleRedo_def Let_def helper_defs split: option.split)

lemma handleUndo_toggle_inv: "toggle_inv s \<Longrightarrow> toggle_inv (handleUndo s)"
  by (simp add: handleUndo_def Let_def helper_defs toggle_inv_def split: option.split)

lemma handleRedo_toggle_inv: "toggle_inv s \<Longrightarrow> toggle_inv (handleRedo s)"
  by (simp add: handleRedo_def Let_def helper_defs toggle_inv_def split: option.split)

lemma step_ledger_inv: "ledger_inv s \<Longrightarrow> ledger_inv (step e s)"
  by (cases e)
     (simp_all add: resume_ledger_inv handleUndo_inv handleRedo_inv,
      simp_all add: ledger_inv_def setNewBaseImage_frame begin_fields toggleComparison_fields
        click_toggleComparison_def setLoading_def
        handleZoomIn_def handleZoomOut_def handleZoomReset_def
        handleDragStart_def handleDragMove_def handleDragEnd_def Let_def)

lemma step_zoom_inv: "zoom_inv s \<Longrightarrow> zoom_inv (step e s)"
proof (cases e)
  case ZoomIn
  assume "zoom_inv s"
  then show ?thesis using ZoomIn by (auto simp: zoom_inv_def handleZoomIn_def)
next
  case ZoomOut
  assume "zoom_inv s"
  then show ?thesis using ZoomOut by (auto simp: zoom_inv_def handleZoomOut_def Let_def)
next
  case (DragStart x y)
  assume "zoom_inv s"
  then show ?thesis using DragStart by (auto simp: zoom_inv_def handleDragStart_def)
next
  case (DragMove x y)
  assume "zoom_inv s"
  then show ?thesis using DragMove by (auto simp: zoom_inv_def handleDragMove_def)
qed (simp_all add: zoom_inv_def resume_zoom setNewBaseImage_frame begin_fields
      toggleComparison_fields handleUndo_fields handleRedo_fields
      click_toggleComparison_def setLoading_def handleZoomReset_def
      handleDragStart_def handleDragMove_def handleDragEnd_def)

lemma step_toggle_inv: "toggle_inv s \<Longrightarrow> toggle_inv (step e s)"
proof (cases e)
  case ClickToggleComparison
  assume "toggle_inv s"
  then show ?thesis using ClickToggleComparison
    by (cases "lastStyledImageBase64 s")
       (simp_all add: toggle_inv_def click_toggleComparison_def toggleComparison_fields)
qed (simp_all add: resume_toggle_inv handleUndo_toggle_inv handleRedo_toggle_inv
        setNewBaseImage_toggle_inv,
      simp_all add: toggle_inv_def begin_fields setLoading_def
        handleZoomIn_def handleZoomOut_def handleZoomReset_def
        handleDragStart_def handleDragMove_def handleDragEnd_def Let_def)

lemma run_ledger_inv: "ledger_inv s \<Longrightarrow> ledger_inv (run evs s)"
  unfolding run_def by (induction evs arbitrary: s) (simp_all add: step_ledger_inv)

lemma run_zoom_inv: "zoom_inv s \<Longrightarrow> zoom_inv (run evs s)"
  unfolding run_def by (induction evs arbitrary: s) (simp_all add: step_zoom_inv)

lemma run_toggle_inv: "toggle_inv s \<Longrightarrow> toggle_inv (run evs s)"
  unfolding run_def by (induction evs arbitrary: s) (simp_all add: step_toggle_inv)

lemma initial_ledger_inv: "ledger_inv (initial_state d i t)"
  by (simp add: ledger_inv_def initial_state_def MAX_HISTORY_def)

lemma initial_zoom_inv: "zoom_inv (initial_state d i t)"
  by (simp add: zoom_inv_def initial_state_def)

text \<open>Every state the handlers reach from the initial one has a well-formed history.\<close>

lemma reachable_ledger_inv: "ledger_inv (run evs (initial_state d i t))"
  by (rule run_ledger_inv[OF initial_ledger_inv])

lemmas handler_defs =
  setNewBaseImage_def addToHistory_def handleUndo_def handleRedo_def
  handleStyleRoom_def handleStyleRoom_begin_def handleStyleRoom_resume_def style_part_def
  toggleComparison_def click_toggleComparison_def
  handleZoomIn_def handleZoomOut_def handleZoomReset_def
  handleDragStart_def handleDragMove_def handleDragEnd_def
  js_splice_from_def js_index_def js_trim_def is_js_whitespace_def code_units_def
  MAX_HISTORY_def STYLING_MESSAGES_def initial_state_def data_url_def
  image_part_def text_part_def run_def

lemma example_base_fields:
  "currentImageBase64 example_base = Some ''AAAA''
   \<and> currentMimeType example_base = Some ''image/png''
   \<and> originalImageBase64 example_base = Some ''AAAA''
   \<and> originalMimeType example_base = Some ''image/png''
   \<and> lastStyledImageBase64 example_base = None
   \<and> lastStyledMimeType example_base = None
   \<and> history example_base = []
   \<and> historyIndex example_base = - 1
   \<and> isComparisonMode example_base = False
   \<and> zoomLevel example_base = 1
   \<and> disabled example_base ToggleComparisonBtn"
  by (simp add: example_base_def handler_defs helper_defs Let_def)

lemma example_styled_once_fields:
  "currentImageBase64 example_styled_once = Some ''BBBB''
   \<and> currentMimeType example_styled_once = Some ''image/png''
   \<and> originalImageBase64 example_styled_once = Some ''AAAA''
   \<and> originalMimeType example_styled_once = Some ''image/png''
   \<and> lastStyledImageBase64 example_styled_once = Some ''BBBB''
   \<and> lastStyledMimeType example_styled_once = Some ''image/png''
   \<and> history example_styled_once = [\<lparr>imageBase64 = ''BBBB'', mimeType = ''image/png''\<rparr>]
   \<and> historyIndex example_styled_once = 0
   \<and> isComparisonMode example_styled_once = False"
  by (simp add: example_styled_once_def example_base_def handler_defs helper_defs Let_def)

lemma example_styled_twice_fields:
  "currentImageBase64 example_styled_twice = Some ''CCCC''
   \<and> lastStyledImageBase64 example_styled_twice = Some ''CCCC''
   \<and> history example_styled_twice =
        [\<lparr>imageBase64 = ''BBBB'', mimeType = ''image/png''\<rparr>,
         \<lparr>imageBase64 = ''CCCC'', mimeType = ''image/png''\<rparr>]
   \<and> historyIndex example_styled_twice = 1
   \<and> disabled example_styled_twice UndoButton = False"
  by (simp add: example_styled_twice_def example_styled_once_def example_base_def handler_defs helper_defs Let_def)

lemma tl_append_long: "19 < length xs \<Longrightarrow> tl (xs @ ys) = tl xs @ ys"
  by (cases xs) simp_all

lemma example_full_inv: "ledger_inv example_full"
  by (simp add: example_full_def ledger_inv_def MAX_HISTORY_def initial_state_def)

lemma example_zoomed_fields:
  "zoomLevel example_zoomed = 3 / 2 \<and> translateX example_zoomed = 30 \<and> translateY example_zoomed = - 10
   \<and> isComparisonMode example_zoomed = False"
  by (simp add: example_zoomed_def handler_defs helper_defs Let_def)

lemma example_zoom_max_fields:
  "zoomLevel example_zoom_max = 3"
  by (simp add: example_zoom_max_def handler_defs helper_defs Let_def)

lemma example_undone_fields:
  "currentImageBase64 example_undone = Some ''BBBB''
   \<and> currentMimeType example_undone = Some ''image/png''
   \<and> history example_undone =
        [\<lparr>imageBase64 = ''BBBB'', mimeType = ''image/png''\<rparr>,
         \<lparr>imageBase64 = ''CCCC'', mimeType = ''image/png''\<rparr>]
   \<and> historyIndex example_undone = 0"
  using example_styled_twice_fields
  by (simp add: example_undone_def handleUndo_def js_index_def helper_defs Let_def)

lemma addToHistory_fields:
  "currentImageBase64 (addToHistory d m s) = currentImageBase64 s
   \<and> currentMimeType (addToHistory d m s) = currentMimeType s
   \<and> originalImageBase64 (addToHistory d m s) = originalImageBase64 s
   \<and> originalMimeType (addToHistory d m s) = originalMimeType s
   \<and> lastStyledImageBase64 (addToHistory d m s) = lastStyledImageBase64 s
   \<and> lastStyledMimeType (addToHistory d m s) = lastStyledMimeType s"
  by (simp add: addToHistory_def Let_def updateHistoryButtons_def)

lemma addToHistory_cong:
  "history s = history s' \<Longrightarrow> historyIndex s = historyIndex s' \<Longrightarrow>
   history (addToHistory d m s) = history (addToHistory d m s')
   \<and> historyIndex (addToHistory d m s) = historyIndex (addToHistory d m s')"
  by (simp add: addToHistory_def Let_def updateHistoryButtons_def)

lemma style_part_image_fields:
  assumes "\<not> truthy (part_text p)" and "part_inlineData p = Some (data, mime)"
  shows "fst (style_part p (f, s)) = True
   \<and> currentImageBase64 (snd (style_part p (f, s))) = Some data
   \<and> currentMimeType (snd (style_part p (f, s))) = Some mime
   \<and> lastStyledImageBase64 (snd (style_part p (f, s))) = Some data
   \<and> lastStyledMimeType (snd (style_part p (f, s))) = Some mime
   \<and> history (snd (style_part p (f, s))) = history (addToHistory data mime s)
   \<and> historyIndex (snd (style_part p (f, s))) = historyIndex (addToHistory data mime s)"
proof -
  let ?s3 = "updateRoomImage data mime
               (s\<lparr>currentImageBase64 := Some data, currentMimeType := Some mime\<rparr>)
               \<lparr>lastStyledImageBase64 := Some data, lastStyledMimeType := Some mime\<rparr>"
  have c: "history (addToHistory data mime ?s3) = history (addToHistory data mime s)
     \<and> historyIndex (addToHistory data mime ?s3) = historyIndex (addToHistory data mime s)"
    by (rule addToHistory_cong) (simp_all add: updateRoomImage_def)
  have g: "currentImageBase64 (addToHistory data mime ?s3) = Some data
     \<and> currentMimeType (addToHistory data mime ?s3) = Some mime
     \<and> lastStyledImageBase64 (addToHistory data mime ?s3) = Some data
     \<and> lastStyledMimeType (addToHistory data mime ?s3) = Some mime"
    by (simp add: addToHistory_fields updateRoomImage_def)
  show ?thesis
    unfolding style_part_image[OF assms]
    using c g by (simp add: showToast_def updateActionButtons_def Let_def)
qed

lemma fold_text_only_fields:
  assumes "\<forall>p\<in>set ps. part_inlineData p = None"
  shows "fst (fold style_part ps (f, s)) = f
   \<and> currentImageBase64 (snd (fold style_part ps (f, s))) = currentImageBase64 s
   \<and> currentMimeType (snd (fold style_part ps (f, s))) = currentMimeType s
   \<and> lastStyledImageBase64 (snd (fold style_part ps (f, s))) = lastStyledImageBase64 s
   \<and> lastStyledMimeType (snd (fold style_part ps (f, s))) = lastStyledMimeType s
   \<and> history (snd (fold style_part ps (f, s))) = history s
   \<and> historyIndex (snd (fold style_part ps (f, s))) = historyIndex s"
proof -
  obtain t where "fold style_part ps (f, s) = (f, s\<lparr>textContent := (textContent s)(ResponseText := t)\<rparr>)"
    using fold_style_part_text_only[OF assms, of f s] by blast
  then show ?thesis by simp
qed

lemma resume_fields:
  "currentImageBase64 (handleStyleRoom_resume (Parts ps) s) = currentImageBase64 (snd (fold style_part ps (False, s)))
   \<and> currentMimeType (handleStyleRoom_resume (Parts ps) s) = currentMimeType (snd (fold style_part ps (False, s)))
   \<and> lastStyledImageBase64 (handleStyleRoom_resume (Parts ps) s) = lastStyledImageBase64 (snd (fold style_part ps (False, s)))
   \<and> lastStyledMimeType (handleStyleRoom_resume (Parts ps) s) = lastStyledMimeType (snd (fold style_part ps (False, s)))
   \<and> originalImageBase64 (handleStyleRoom_resume (Parts ps) s) = originalImageBase64 s
   \<and> originalMimeType (handleStyleRoom_resume (Parts ps) s) = originalMimeType s
   \<and> history (handleStyleRoom_resume (Parts ps) s) = history (snd (fold style_part ps (False, s)))
   \<and> historyIndex (handleStyleRoom_resume (Parts ps) s) = historyIndex (snd (fold style_part ps (False, s)))
   \<and> textContent (handleStyleRoom_resume (Parts ps) s) ResponseText =
       (if fst (fold style_part ps (False, s))
        then textContent (snd (fold style_part ps (False, s))) ResponseText
        else ''The model did not return an image. Please try a different prompt.'')"
  using fold_style_part_zoom[of ps "(False, s)"]
  by (simp add: handleStyleRoom_resume_def setLoading_def Let_def)

lemma example_rebased_fields:
  "currentImageBase64 example_rebased = Some ''DDDD''
   \<and> originalImageBase64 example_rebased = Some ''DDDD''
   \<and> lastStyledImageBase64 example_rebased = None
   \<and> history example_rebased = []
   \<and> historyIndex example_rebased = - 1"
  using example_base_fields begin_fields[of "code_units ''add a lamp''" example_base]
    setNewBaseImage_frame[of "''DDDD''" "''image/jpeg''" example_in_flight]
    setNewBaseImage_slots[of "''DDDD''" "''image/jpeg''" example_in_flight]
  by (simp add: example_rebased_def example_in_flight_def)

lemma fold_style_part_original:
  "originalImageBase64 (snd (fold style_part ps fs)) = originalImageBase64 (snd fs)
   \<and> originalMimeType (snd (fold style_part ps fs)) = originalMimeType (snd fs)"
  using fold_style_part_zoom[of ps fs] by simp

lemma example_failed_fields:
  "lastStyledImageBase64 example_failed = None
   \<and> textContent example_failed ResponseText = ''An error occurred: Failed to fetch''"
  by (simp add: example_failed_def handler_defs helper_defs Let_def)

lemma js_trim_unicode_space: "js_trim [0x00A0, 0x0020, 0x3000, 0xFEFF] = []"
  by (simp add: js_trim_def is_js_whitespace_def)















section \<open>The claims\<close>

text \<open>
  C3. On a history whose cursor is \<open>-1\<close> or a valid index and that holds at most 20
  entries, \<open>addToHistory\<close> keeps the entries up to and including the cursor, drops the
  ones after it and appends the new entry; when that makes 21 entries the oldest goes.
  Either way the cursor ends on the last index, where the new entry is, and the history
  holds at most 20 entries.
\<close>

theorem addToHistory_push:
  assumes "ledger_inv s"
  shows "(let x = \<lparr>imageBase64 = data, mimeType = mime\<rparr>;
              kept = take (nat (historyIndex s + 1)) (history s);
              s' = addToHistory data mime s
          in history s' = (if length kept < 20 then kept @ [x] else tl kept @ [x])
             \<and> historyIndex s' = int (length (history s')) - 1
             \<and> js_index (history s') (historyIndex s') = Some x
             \<and> length (history s') \<le> 20
             \<and> ledger_inv s')"
proof -
  let ?x = "\<lparr>imageBase64 = data, mimeType = mime\<rparr>"
  let ?kept = "take (nat (historyIndex s + 1)) (history s)"
  have len: "length ?kept \<le> 20"
    using assms by (auto simp: ledger_inv_def MAX_HISTORY_def)
  have h: "history (addToHistory data mime s) =
             (if length ?kept < 20 then ?kept @ [?x] else tl ?kept @ [?x])"
    using assms
    by (auto simp: addToHistory_def ledger_inv_def MAX_HISTORY_def Let_def
          js_splice_from_take updateHistoryButtons_def tl_append_long)
  have inv: "ledger_inv (addToHistory data mime s)" by (rule addToHistory_inv[OF assms])
  then have "length (history (addToHistory data mime s)) \<le> 20"
    by (simp add: ledger_inv_def MAX_HISTORY_def)
  then show ?thesis
    using h inv addToHistory_index[OF assms, of data mime] addToHistory_last[OF assms, of data mime]
    by (simp add: Let_def)
qed

text \<open>
  A full history with the cursor on its last entry: the push evicts the oldest entry and
  the cursor stays on index 19, now the new entry.
\<close>

theorem addToHistory_push_witness:
  "ledger_inv example_full
   \<and> length (history example_full) = 20
   \<and> history (addToHistory ''CCCC'' ''image/png'' example_full)
       = tl (history example_full) @ [\<lparr>imageBase64 = ''CCCC'', mimeType = ''image/png''\<rparr>]
   \<and> length (history (addToHistory ''CCCC'' ''image/png'' example_full)) = 20
   \<and> historyIndex (addToHistory ''CCCC'' ''image/png'' example_full) = 19
   \<and> js_index (history (addToHistory ''CCCC'' ''image/png'' example_full)) 19
       = Some \<lparr>imageBase64 = ''CCCC'', mimeType = ''image/png''\<rparr>"
proof -
  let ?s' = "addToHistory ''CCCC'' ''image/png'' example_full"
  let ?x = "\<lparr>imageBase64 = ''CCCC'', mimeType = ''image/png''\<rparr>"
  have l: "length (history example_full) = 20" and i: "historyIndex example_full = 19"
    by (simp_all add: example_full_def initial_state_def)
  note T = addToHistory_push[OF example_full_inv, of "''CCCC''" "''image/png''", unfolded Let_def]
  have k: "take (nat (historyIndex example_full + 1)) (history example_full) = history example_full"
    using l i by simp
  from T k l have h: "history ?s' = tl (history example_full) @ [?x]" by simp
  from T have idx: "historyIndex ?s' = int (length (history ?s')) - 1" by blast
  have len': "length (history ?s') = 20" using h l by simp
  have idx19: "historyIndex ?s' = 19" using idx len' by simp
  from T have "js_index (history ?s') (historyIndex ?s') = Some ?x" by blast
  then have j: "js_index (history ?s') 19 = Some ?x" unfolding idx19 .
  show ?thesis using example_full_inv l h len' idx19 j by blast
qed

text \<open>
  C10. In every state, \<open>handleUndo\<close> and \<open>handleRedo\<close> leave the history array and the
  two original-image variables as they are. Of the module's variables they write only
  \<open>historyIndex\<close> and the current and last-styled image; the rest of what they change is
  on the page (button states, the displayed image, the toast).
\<close>

theorem undo_redo_frame:
  "history (handleUndo s) = history s
   \<and> history (handleRedo s) = history s
   \<and> originalImageBase64 (handleUndo s) = originalImageBase64 s
   \<and> originalMimeType (handleUndo s) = originalMimeType s
   \<and> originalImageBase64 (handleRedo s) = originalImageBase64 s
   \<and> originalMimeType (handleRedo s) = originalMimeType s
   \<and> handleUndo s =
       s\<lparr>currentImageBase64 := currentImageBase64 (handleUndo s),
         currentMimeType := currentMimeType (handleUndo s),
         lastStyledImageBase64 := lastStyledImageBase64 (handleUndo s),
         lastStyledMimeType := lastStyledMimeType (handleUndo s),
         historyIndex := historyIndex (handleUndo s),
         disabled := disabled (handleUndo s),
         src := src (handleUndo s),
         textContent := textContent (handleUndo s)\<rparr>
   \<and> handleRedo s =
       s\<lparr>currentImageBase64 := currentImageBase64 (handleRedo s),
         currentMimeType := currentMimeType (handleRedo s),
         lastStyledImageBase64 := lastStyledImageBase64 (handleRedo s),
         lastStyledMimeType := lastStyledMimeType (handleRedo s),
         historyIndex := historyIndex (handleRedo s),
         disabled := disabled (handleRedo s),
         src := src (handleRedo s),
         textContent := textContent (handleRedo s)\<rparr>"
  using handleUndo_frame[of s] handleRedo_frame[of s] handleUndo_fields[of s] handleRedo_fields[of s]
  by simp

text \<open>
  C1. After two stylings the history holds two entries and the cursor is 1. A new base
  image then clears the last-styled image, but the history and the cursor stay as they
  were and the undo button stays enabled; the next undo shows the first styled image of
  the previous room.
\<close>

theorem setNewBaseImage_keeps_history:
  "lastStyledImageBase64 (setNewBaseImage ''DDDD'' ''image/jpeg'' example_styled_twice) = None
   \<and> history (setNewBaseImage ''DDDD'' ''image/jpeg'' example_styled_twice) =
        [\<lparr>imageBase64 = ''BBBB'', mimeType = ''image/png''\<rparr>,
         \<lparr>imageBase64 = ''CCCC'', mimeType = ''image/png''\<rparr>]
   \<and> historyIndex (setNewBaseImage ''DDDD'' ''image/jpeg'' example_styled_twice) = 1
   \<and> disabled (setNewBaseImage ''DDDD'' ''image/jpeg'' example_styled_twice) UndoButton = False
   \<and> currentImageBase64 (handleUndo (setNewBaseImage ''DDDD'' ''image/jpeg'' example_styled_twice))
        = Some ''BBBB''"
proof -
  let ?s = "setNewBaseImage ''DDDD'' ''image/jpeg'' example_styled_twice"
  note f = setNewBaseImage_frame[of "''DDDD''" "''image/jpeg''" example_styled_twice]
  note e = example_styled_twice_fields
  have h: "history ?s = [\<lparr>imageBase64 = ''BBBB'', mimeType = ''image/png''\<rparr>,
         \<lparr>imageBase64 = ''CCCC'', mimeType = ''image/png''\<rparr>]" using f e by simp
  have i: "historyIndex ?s = 1" using f e by simp
  have u: "currentImageBase64 (handleUndo ?s) = Some ''BBBB''"
    using h i by (simp add: handleUndo_def js_index_def helper_defs Let_def)
  show ?thesis
    using h i u f e setNewBaseImage_slots[of "''DDDD''" "''image/jpeg''" example_styled_twice]
    by simp
qed

text \<open>
  C2. No handler records which request an answer belongs to. An answer with one image
  part that arrives after a new base image was set is applied like any other: the
  current and the last-styled image become the answer's image and it is pushed on the
  history; only the original image stays the new base image.
\<close>

theorem stale_answer_applied:
  assumes "\<forall>p\<in>set pre. part_inlineData p = None"
    and "\<not> truthy (part_text img)" and "part_inlineData img = Some (data, mime)"
    and "\<forall>p\<in>set post. part_inlineData p = None"
  shows "(let s2 = setNewBaseImage base64 m s;
              s3 = handleStyleRoom_resume (Parts (pre @ [img] @ post)) s2
          in currentImageBase64 s3 = Some data \<and> currentMimeType s3 = Some mime
             \<and> lastStyledImageBase64 s3 = Some data \<and> lastStyledMimeType s3 = Some mime
             \<and> history s3 = history (addToHistory data mime s)
             \<and> historyIndex s3 = historyIndex (addToHistory data mime s)
             \<and> originalImageBase64 s3 = Some base64 \<and> originalMimeType s3 = Some m)"
proof -
  let ?s2 = "setNewBaseImage base64 m s"
  obtain t where pre: "fold style_part pre (False, ?s2)
      = (False, ?s2\<lparr>textContent := (textContent ?s2)(ResponseText := t)\<rparr>)"
    using fold_style_part_text_only[OF assms(1), of False ?s2] by blast
  let ?s2' = "?s2\<lparr>textContent := (textContent ?s2)(ResponseText := t)\<rparr>"
  let ?r = "style_part img (False, ?s2')"
  note i = style_part_image_fields[OF assms(2,3), of False ?s2']
  have c: "history (addToHistory data mime ?s2') = history (addToHistory data mime s)
     \<and> historyIndex (addToHistory data mime ?s2') = historyIndex (addToHistory data mime s)"
    by (rule addToHistory_cong) (simp_all add: setNewBaseImage_frame)
  note p = fold_text_only_fields[OF assms(4), of "fst ?r" "snd ?r"]
  have f: "fold style_part (pre @ [img] @ post) (False, ?s2) = fold style_part post (fst ?r, snd ?r)"
    using pre by simp
  note g = resume_fields[of "pre @ [img] @ post" ?s2, unfolded f]
  note o = setNewBaseImage_slots[of base64 m s]
  show ?thesis
    unfolding Let_def using i c p g o by simp
qed

text \<open>
  The request is sent for image AAAA, the user picks image DDDD, then the answer with
  image BBBB arrives.
\<close>

theorem stale_answer_applied_witness:
  "currentImageBase64 (handleStyleRoom_resume (Parts [image_part ''BBBB'' ''image/png'']) example_rebased)
      = Some ''BBBB''
   \<and> lastStyledImageBase64 (handleStyleRoom_resume (Parts [image_part ''BBBB'' ''image/png'']) example_rebased)
      = Some ''BBBB''
   \<and> originalImageBase64 (handleStyleRoom_resume (Parts [image_part ''BBBB'' ''image/png'']) example_rebased)
      = Some ''DDDD''"
proof -
  have a: "\<forall>p\<in>set ([]::part list). part_inlineData p = None" by simp
  have b: "\<not> truthy (part_text (image_part ''BBBB'' ''image/png''))"
    and c: "part_inlineData (image_part ''BBBB'' ''image/png'') = Some (''BBBB'', ''image/png'')"
    by (simp_all add: image_part_def)
  show ?thesis
    using stale_answer_applied[OF a b c a, of "''DDDD''" "''image/jpeg''" example_in_flight]
    by (simp add: Let_def example_rebased_def)
qed

text \<open>
  The same run, with the state before the answer beside the state after it: the answer is
  not discarded.
\<close>

theorem stale_answer_not_discarded:
  "currentImageBase64 example_rebased = Some ''DDDD''
   \<and> lastStyledImageBase64 example_rebased = None
   \<and> history example_rebased = []
   \<and> currentImageBase64
        (handleStyleRoom_resume (Parts [image_part ''BBBB'' ''image/png'']) example_rebased)
       = Some ''BBBB''
   \<and> lastStyledImageBase64
        (handleStyleRoom_resume (Parts [image_part ''BBBB'' ''image/png'']) example_rebased)
       = Some ''BBBB''
   \<and> history
        (handleStyleRoom_resume (Parts [image_part ''BBBB'' ''image/png'']) example_rebased)
       = [\<lparr>imageBase64 = ''BBBB'', mimeType = ''image/png''\<rparr>]"
  using example_rebased_fields
  by (simp add: handleStyleRoom_resume_def style_part_def image_part_def addToHistory_def
        MAX_HISTORY_def helper_defs Let_def)




text \<open>
  C5. Where undo is possible (the cursor is above 0) and the current image is the entry
  under the cursor, undo followed by redo brings back the current image and the cursor,
  and the history is untouched.
\<close>

theorem undo_redo_roundtrip:
  assumes "ledger_inv s" and "0 < historyIndex s"
    and "currentImageBase64 s = Some (imageBase64 (history s ! nat (historyIndex s)))"
    and "currentMimeType s = Some (mimeType (history s ! nat (historyIndex s)))"
  shows "currentImageBase64 (handleRedo (handleUndo s)) = currentImageBase64 s
         \<and> currentMimeType (handleRedo (handleUndo s)) = currentMimeType s
         \<and> historyIndex (handleRedo (handleUndo s)) = historyIndex s
         \<and> history (handleRedo (handleUndo s)) = history s"
proof -
  have u: "historyIndex (handleUndo s) = historyIndex s - 1 \<and> history (handleUndo s) = history s"
    using assms(1,2)
    by (simp add: handleUndo_def js_index_def helper_defs Let_def ledger_inv_def)
  then have "historyIndex (handleUndo s) < int (length (history (handleUndo s))) - 1"
    using assms(1) by (simp add: ledger_inv_def)
  moreover have "0 \<le> historyIndex (handleUndo s) + 1
       \<and> historyIndex (handleUndo s) + 1 < int (length (history (handleUndo s)))"
    using u assms(1,2) by (simp add: ledger_inv_def)
  ultimately have
    "historyIndex (handleRedo (handleUndo s)) = historyIndex s
     \<and> history (handleRedo (handleUndo s)) = history s
     \<and> currentImageBase64 (handleRedo (handleUndo s)) = Some (imageBase64 (history s ! nat (historyIndex s)))
     \<and> currentMimeType (handleRedo (handleUndo s)) = Some (mimeType (history s ! nat (historyIndex s)))"
    using u by (simp add: handleRedo_def js_index_def helper_defs Let_def)
  then show ?thesis using assms(3,4) by simp
qed

text \<open>
  After two stylings: undo shows BBBB, redo shows CCCC again.
\<close>

theorem undo_redo_roundtrip_witness:
  "ledger_inv example_styled_twice \<and> 0 < historyIndex example_styled_twice
   \<and> currentImageBase64 (handleRedo (handleUndo example_styled_twice)) = Some ''CCCC''
   \<and> currentImageBase64 (handleUndo example_styled_twice) = Some ''BBBB''
   \<and> historyIndex (handleRedo (handleUndo example_styled_twice)) = 1"
proof -
  note e = example_styled_twice_fields
  have inv: "ledger_inv example_styled_twice" using e by (simp add: ledger_inv_def MAX_HISTORY_def)
  have pos: "0 < historyIndex example_styled_twice" using e by simp
  have c: "currentImageBase64 example_styled_twice
            = Some (imageBase64 (history example_styled_twice ! nat (historyIndex example_styled_twice)))"
    using e by simp
  have m: "currentMimeType example_styled_twice
            = Some (mimeType (history example_styled_twice ! nat (historyIndex example_styled_twice)))"
    by (simp add: example_styled_twice_def example_styled_once_def example_base_def handler_defs helper_defs Let_def)
  have "currentImageBase64 (handleUndo example_styled_twice) = Some ''BBBB''"
    using example_undone_fields by (simp add: example_undone_def)
  then show ?thesis using undo_redo_roundtrip[OF inv pos c m] inv pos e by simp
qed

text \<open>
  With the cursor on the first of two entries, undo does nothing and redo still moves
  forward: the pair does not bring the state back.
\<close>

theorem undo_redo_at_front:
  "historyIndex (handleRedo (handleUndo example_undone)) = 1
   \<and> historyIndex example_undone = 0
   \<and> currentImageBase64 (handleRedo (handleUndo example_undone)) = Some ''CCCC''
   \<and> currentImageBase64 example_undone = Some ''BBBB''"
proof -
  note e = example_undone_fields
  have u: "handleUndo example_undone = example_undone" using e by (simp add: handleUndo_def)
  have "historyIndex (handleRedo example_undone) = 1
        \<and> currentImageBase64 (handleRedo example_undone) = Some ''CCCC''"
    using e by (simp add: handleRedo_def js_index_def helper_defs Let_def)
  then show ?thesis using u e by simp
qed

text \<open>
  C6. A new base image switches comparison mode off. The zoom level, the pan offset and
  the slider position are not written: they stay as they were.
\<close>

theorem setNewBaseImage_view:
  "isComparisonMode (setNewBaseImage base64 mime s) = False
   \<and> zoomLevel (setNewBaseImage base64 mime s) = zoomLevel s
   \<and> translateX (setNewBaseImage base64 mime s) = translateX s
   \<and> translateY (setNewBaseImage base64 mime s) = translateY s
   \<and> sliderPosition (setNewBaseImage base64 mime s) = sliderPosition s"
  using setNewBaseImage_frame[of base64 mime s] setNewBaseImage_slots[of base64 mime s]
  by simp

text \<open>
  Zoomed to 1.5 and panned by (30, -10), then a new base image: zoom and pan are kept.
\<close>

theorem setNewBaseImage_keeps_zoom:
  "zoomLevel (setNewBaseImage ''DDDD'' ''image/jpeg'' example_zoomed) = 3 / 2
   \<and> translateX (setNewBaseImage ''DDDD'' ''image/jpeg'' example_zoomed) = 30
   \<and> translateY (setNewBaseImage ''DDDD'' ''image/jpeg'' example_zoomed) = - 10"
  using example_zoomed_fields setNewBaseImage_frame[of "''DDDD''" "''image/jpeg''" example_zoomed]
  by simp

text \<open>
  C7. From the first new base image on, the toggle button is disabled exactly while no
  styled image is set, so a click on it then changes nothing and reports nothing;
  comparison mode is off while the last-styled image is null, and a click enters it only
  when a styled image is set. The handler itself has no such test.
\<close>

theorem toggle_button_gate:
  assumes "s = run evs (setNewBaseImage base64 mime s0)"
  shows "(\<not> truthy (lastStyledImageBase64 s) \<longrightarrow>
            disabled s ToggleComparisonBtn \<and> click_toggleComparison s = s)
     \<and> (lastStyledImageBase64 s = None \<longrightarrow> \<not> isComparisonMode s)
     \<and> (\<not> isComparisonMode s \<and> isComparisonMode (click_toggleComparison s) \<longrightarrow>
            truthy (lastStyledImageBase64 s))"
proof -
  have "toggle_inv s" unfolding assms by (rule run_toggle_inv[OF setNewBaseImage_toggle_inv])
  then show ?thesis
    by (auto simp: toggle_inv_def click_toggleComparison_def)
qed

text \<open>
  After a styling request that failed: no styled image, the button is disabled and the
  click changes nothing.
\<close>

theorem toggle_button_gate_witness:
  "lastStyledImageBase64 example_failed = None
   \<and> disabled example_failed ToggleComparisonBtn
   \<and> click_toggleComparison example_failed = example_failed
   \<and> \<not> isComparisonMode example_failed"
  using toggle_button_gate[OF example_failed_def] example_failed_fields by simp

text \<open>
  The handler called on a state without a styled image enters comparison mode and
  writes no message; neither does the click.
\<close>

theorem toggleComparison_unguarded:
  "lastStyledImageBase64 example_base = None
   \<and> isComparisonMode example_base = False
   \<and> isComparisonMode (toggleComparison example_base) = True
   \<and> textContent (toggleComparison example_base) = textContent example_base
   \<and> textContent (click_toggleComparison example_base) = textContent example_base"
  using example_base_fields toggleComparison_fields[of example_base]
  by (simp add: click_toggleComparison_def)

text \<open>
  C8. When the request was sent and no part of the answer carries an image, the current,
  last-styled and original images, the history and its cursor are as before, and the
  response text is the message that the model did not return an image; the outcome
  differs from that of any thrown error.
\<close>

theorem text_only_answer:
  assumes "snd (handleStyleRoom_begin promptValue s)"
    and "\<forall>p\<in>set ps. part_inlineData p = None"
  shows "currentImageBase64 (handleStyleRoom promptValue (Parts ps) s) = currentImageBase64 s
   \<and> currentMimeType (handleStyleRoom promptValue (Parts ps) s) = currentMimeType s
   \<and> lastStyledImageBase64 (handleStyleRoom promptValue (Parts ps) s) = lastStyledImageBase64 s
   \<and> lastStyledMimeType (handleStyleRoom promptValue (Parts ps) s) = lastStyledMimeType s
   \<and> originalImageBase64 (handleStyleRoom promptValue (Parts ps) s) = originalImageBase64 s
   \<and> originalMimeType (handleStyleRoom promptValue (Parts ps) s) = originalMimeType s
   \<and> history (handleStyleRoom promptValue (Parts ps) s) = history s
   \<and> historyIndex (handleStyleRoom promptValue (Parts ps) s) = historyIndex s
   \<and> textContent (handleStyleRoom promptValue (Parts ps) s) ResponseText
        = ''The model did not return an image. Please try a different prompt.''
   \<and> handleStyleRoom promptValue (Parts ps) s
        \<noteq> handleStyleRoom promptValue (Threw msg) s"
proof -
  let ?b = "fst (handleStyleRoom_begin promptValue s)"
  have r: "handleStyleRoom promptValue outcome s = handleStyleRoom_resume outcome ?b" for outcome
    using assms(1) by (simp add: handleStyleRoom_def Let_def)
  note f = fold_text_only_fields[OF assms(2), of False ?b]
  note g = resume_fields[of ps ?b]
  note b = begin_fields[of promptValue s]
  have t: "textContent (handleStyleRoom promptValue (Parts ps) s) ResponseText
        = ''The model did not return an image. Please try a different prompt.''"
    using f g by (simp add: r)
  have "textContent (handleStyleRoom promptValue (Threw msg) s) ResponseText
        = ''An error occurred: '' @ msg"
    by (simp add: r handleStyleRoom_resume_def setLoading_def)
  with t have ne: "handleStyleRoom promptValue (Parts ps) s \<noteq> handleStyleRoom promptValue (Threw msg) s"
    by auto
  show ?thesis using f g b t ne by (simp add: r)
qed

text \<open>
  An answer with one text part.
\<close>

theorem text_only_answer_witness:
  "snd (handleStyleRoom_begin (code_units ''add a lamp'') example_base)
   \<and> currentImageBase64
        (handleStyleRoom (code_units ''add a lamp'') (Parts [text_part ''I cannot edit this image.'']) example_base)
       = Some ''AAAA''
   \<and> lastStyledImageBase64
        (handleStyleRoom (code_units ''add a lamp'') (Parts [text_part ''I cannot edit this image.'']) example_base)
       = None
   \<and> history
        (handleStyleRoom (code_units ''add a lamp'') (Parts [text_part ''I cannot edit this image.'']) example_base)
       = []
   \<and> textContent
        (handleStyleRoom (code_units ''add a lamp'') (Parts [text_part ''I cannot edit this image.'']) example_base)
        ResponseText
       = ''The model did not return an image. Please try a different prompt.''"
proof -
  have sent: "snd (handleStyleRoom_begin (code_units ''add a lamp'') example_base)"
    using example_base_fields
    by (simp add: handleStyleRoom_begin_def js_trim_def is_js_whitespace_def code_units_def Let_def)
  have noimg: "\<forall>p\<in>set [text_part ''I cannot edit this image.'']. part_inlineData p = None"
    by (simp add: text_part_def)
  show ?thesis
    using text_only_answer[OF sent noimg] sent example_base_fields by simp
qed

text \<open>
  C9. In every state the handlers can reach from the initial one, the zoom level lies
  between 1 and 3; below 3, zooming in and then out gives the level back; at 3, zooming
  in does nothing and zooming out gives 2.75; and at level 1 the pan offset is (0, 0),
  before and after the pair.
\<close>

theorem zoom_roundtrip:
  assumes "s = run evs (initial_state d i t)"
  shows "1 \<le> zoomLevel s \<and> zoomLevel s \<le> 3
     \<and> (zoomLevel s < 3 \<longrightarrow> zoomLevel (handleZoomOut (handleZoomIn s)) = zoomLevel s)
     \<and> (zoomLevel s = 3 \<longrightarrow> zoomLevel (handleZoomOut (handleZoomIn s)) = 11 / 4)
     \<and> (zoomLevel s = 1 \<longrightarrow>
          translateX s = 0 \<and> translateY s = 0
          \<and> translateX (handleZoomOut (handleZoomIn s)) = 0
          \<and> translateY (handleZoomOut (handleZoomIn s)) = 0)"
proof -
  have "zoom_inv s" unfolding assms by (rule run_zoom_inv[OF initial_zoom_inv])
  then show ?thesis
    by (auto simp: zoom_inv_def handleZoomIn_def handleZoomOut_def Let_def)
qed

text \<open>
  At level 1.5, after two zoom-ins and a drag.
\<close>

theorem zoom_roundtrip_witness:
  "zoomLevel example_zoomed = 3 / 2
   \<and> zoomLevel (handleZoomOut (handleZoomIn example_zoomed)) = 3 / 2"
  using zoom_roundtrip[OF example_zoomed_def] example_zoomed_fields by simp

text \<open>
  At level 3, after eight zoom-ins: the pair ends on 2.75.
\<close>

theorem zoom_roundtrip_at_max:
  "zoomLevel example_zoom_max = 3
   \<and> zoomLevel (handleZoomOut (handleZoomIn example_zoom_max)) = 11 / 4"
  using example_zoom_max_fields by (simp add: handleZoomIn_def handleZoomOut_def Let_def)

end
